theory Spec2Isabelle
  imports Complex_Main
begin

section \<open>Scalar reverse-mode differentiation: the \<open>Value\<close> graph of \<open>src/main.py\<close>\<close>

text \<open>
  The program builds a graph of \<open>Value\<close> objects while it evaluates an arithmetic
  expression, and \<open>Value.backward\<close> fills in the gradient of every object the result was
  computed from. Objects are shared and mutated in place, so the development keeps them
  in an explicit store: a list of nodes, an object being its index. A constructor call
  appends a node; a reference to an object is the index of a node of the store.

  The data and the gradient of a node, and a plain number given to \<open>+\<close>, \<open>*\<close> or \<open>/\<close>, are
  finite floats, and the development takes a float as the real number it stands for:
  rounding is left out, and so is the overflow of a sum or a product to \<open>inf\<close>, which
  raises nothing. The exceptions of \<open>**\<close> and of \<open>math.exp\<close> are written out. Where \<open>**\<close> or
  \<open>math.exp\<close> gives a number that is no finite real (\<open>inf\<close>, \<open>nan\<close>, a complex number), Python
  goes on with it; the development says so (\<open>NonReal\<close>) and follows the computation no
  further. The interpreter's recursion limit is outside the development.
\<close>

subsection \<open>Python's numbers and exceptions\<close>

datatype error = AssertionError | ZeroDivisionError | TypeError | OverflowError

text \<open>
  What a call does: it raises an exception, or it returns, or (\<open>NonReal\<close>) it goes on in
  Python with a number that is no finite real, which the nodes of this development
  cannot hold.
\<close>

datatype 'a outcome = Raises error | Returns 'a | NonReal

text \<open>The largest float, \<open>sys.float_info.max\<close>.\<close>

definition float_max :: real where
  "float_max = 2 ^ 1024 - 2 ^ 971"

text \<open>
  \<open>math.exp(x)\<close> raises \<open>OverflowError\<close> when the result is beyond the largest float. A
  number beyond the largest float is \<open>inf\<close> in Python, and \<open>math.exp(inf)\<close> is \<open>inf\<close>.
\<close>

definition math_exp :: "real \<Rightarrow> real outcome" where
  "math_exp x =
     (if float_max < x then NonReal
      else if float_max < exp x then Raises OverflowError
      else Returns (exp x))"

text \<open>
  The objects a caller may pass as the exponent of \<open>**\<close>. \<open>Number n\<close> is an object for
  which \<open>isinstance(other, (int, float))\<close> holds: an \<open>int\<close> (a \<open>bool\<close> is one), a finite
  \<open>float\<close>, or one of the floats \<open>inf\<close>, \<open>-inf\<close> and \<open>nan\<close>. \<open>PyOther\<close> is any other object.
\<close>

datatype number = PyInt int | PyFloat real | PyInf | PyNegInf | PyNan

datatype pyobj = Number number | PyOther

text \<open>
  The conversion of a number to a float, which \<open>**\<close> and \<open>*\<close> apply to an \<open>int\<close> operand
  when the other operand is a float. It raises \<open>OverflowError\<close> for an \<open>int\<close> that rounds
  beyond the largest float; those below are taken as the floats they round to.
\<close>

fun as_float :: "number \<Rightarrow> real outcome" where
  "as_float (PyInt n) =
     (if 2 ^ 1024 - 2 ^ 970 \<le> \<bar>real_of_int n\<bar> then Raises OverflowError
      else Returns (real_of_int n))"
| "as_float (PyFloat y) = Returns y"
| "as_float n = NonReal"

text \<open>\<open>other - 1\<close>\<close>

fun minus_one :: "number \<Rightarrow> number" where
  "minus_one (PyInt n) = PyInt (n - 1)"
| "minus_one (PyFloat y) = PyFloat (y - 1)"
| "minus_one n = n"

text \<open>
  \<open>x ** y\<close> for a finite float \<open>x\<close> and a finite \<open>y\<close>, in the order of the tests of the
  interpreter: \<open>x ** 0\<close> is \<open>1\<close>; \<open>0 ** y\<close> raises \<open>ZeroDivisionError\<close> for a negative \<open>y\<close>; a
  negative \<open>x\<close> with a \<open>y\<close> that is not integral gives a complex number; a result beyond
  the largest float raises \<open>OverflowError\<close>.
\<close>

definition pow_finite :: "real \<Rightarrow> real \<Rightarrow> real outcome" where
  "pow_finite x y =
     (if y = 0 then Returns 1
      else if x = 0 then (if y < 0 then Raises ZeroDivisionError else Returns 0)
      else if x < 0 \<and> y \<notin> \<int> then
        (if float_max < \<bar>x\<bar> powr y then Raises OverflowError else NonReal)
      else
        (let r = (if y \<in> \<int> then x powi \<lfloor>y\<rfloor> else x powr y)
         in if float_max < \<bar>r\<bar> then Raises OverflowError else Returns r))"

text \<open>
  \<open>x ** y\<close> for a finite float \<open>x\<close>. An \<open>int\<close> exponent is converted first. With \<open>y = nan\<close>
  the result is \<open>1\<close> for \<open>x = 1\<close> and \<open>nan\<close> otherwise; with an infinite \<open>y\<close> it is \<open>1\<close>, \<open>0\<close>
  or \<open>inf\<close>, and no exception is raised.
\<close>

fun py_pow :: "real \<Rightarrow> number \<Rightarrow> real outcome" where
  "py_pow x (PyInt n) =
     (case as_float (PyInt n) of
        Raises e \<Rightarrow> Raises e
      | NonReal \<Rightarrow> NonReal
      | Returns y \<Rightarrow> pow_finite x y)"
| "py_pow x (PyFloat y) = pow_finite x y"
| "py_pow x PyNan = (if x = 1 then Returns 1 else NonReal)"
| "py_pow x PyInf = (if \<bar>x\<bar> = 1 then Returns 1 else if 1 < \<bar>x\<bar> then NonReal else Returns 0)"
| "py_pow x PyNegInf = (if \<bar>x\<bar> = 1 then Returns 1 else if \<bar>x\<bar> < 1 then NonReal else Returns 0)"

subsection \<open>Nodes and the store\<close>

text \<open>
  A closure \<open>_backward\<close> becomes the constructor of \<open>rule\<close> that names the function it was
  created in, with the objects and numbers it captured (\<open>self\<close>, \<open>other\<close>, \<open>t\<close>); the
  captured \<open>out\<close> is the node that owns the rule. The operation tag is a string in the
  source (\<open>''\<close>, \<open>+\<close>, \<open>*\<close>, \<open>**n\<close>, \<open>tanh\<close>, \<open>exp\<close>).
\<close>

datatype rule =
    NoRule
  | AddRule nat nat
  | MulRule nat nat
  | PowRule nat number
  | TanhRule nat real
  | ExpRule nat

datatype op_tag = LeafTag | AddTag | MulTag | PowTag number | TanhTag | ExpTag

record node =
  data :: real
  previous :: "nat set"
  operation :: op_tag
  gradient :: real
  backward_rule :: rule

type_synonym heap = "node list"

text \<open>An operand of a binary operator: a \<open>Value\<close> or a plain number.\<close>

datatype operand = Node nat | Raw real

definition Value_init :: "heap \<Rightarrow> real \<Rightarrow> nat list \<Rightarrow> op_tag \<Rightarrow> heap \<times> nat" where
  "Value_init h d children tag =
     (h @ [\<lparr>data = d, previous = set children, operation = tag, gradient = 0,
             backward_rule = NoRule\<rparr>], length h)"

definition set_backward :: "heap \<Rightarrow> nat \<Rightarrow> rule \<Rightarrow> heap" where
  "set_backward h out r = h[out := (h ! out)\<lparr>backward_rule := r\<rparr>]"

text \<open>\<open>other if isinstance(other, Value) else Value(other)\<close>\<close>

fun as_value :: "heap \<Rightarrow> operand \<Rightarrow> heap \<times> nat" where
  "as_value h (Node v) = (h, v)"
| "as_value h (Raw x) = Value_init h x [] LeafTag"

definition Value_add :: "heap \<Rightarrow> nat \<Rightarrow> operand \<Rightarrow> heap \<times> nat" where
  "Value_add h self other0 =
     (let (h1, other) = as_value h other0;
          (h2, out) = Value_init h1 (data (h1 ! self) + data (h1 ! other)) [self, other] AddTag
      in (set_backward h2 out (AddRule self other), out))"

definition Value_mul :: "heap \<Rightarrow> nat \<Rightarrow> operand \<Rightarrow> heap \<times> nat" where
  "Value_mul h self other0 =
     (let (h1, other) = as_value h other0;
          (h2, out) = Value_init h1 (data (h1 ! self) * data (h1 ! other)) [self, other] MulTag
      in (set_backward h2 out (MulRule self other), out))"

text \<open>
  \<open>__pow__\<close>: the assertion \<open>isinstance(other, (int, float))\<close>, then \<open>self.data**other\<close>,
  then the new node. When \<open>**\<close> gives a number that is no finite real, Python returns a
  node that holds it.
\<close>

definition Value_pow :: "heap \<Rightarrow> nat \<Rightarrow> pyobj \<Rightarrow> (heap \<times> nat) outcome" where
  "Value_pow h self other =
     (case other of
        PyOther \<Rightarrow> Raises AssertionError
      | Number n \<Rightarrow>
          (case py_pow (data (h ! self)) n of
             Raises e \<Rightarrow> Raises e
           | NonReal \<Rightarrow> NonReal
           | Returns d \<Rightarrow>
               (let (h1, out) = Value_init h d [self] (PowTag n)
                in Returns (set_backward h1 out (PowRule self n), out))))"

definition Value_neg :: "heap \<Rightarrow> nat \<Rightarrow> heap \<times> nat" where
  "Value_neg h self = Value_mul h self (Raw (- 1))"

text \<open>\<open>self + (-other)\<close>: the negation of a plain number is a plain number.\<close>

fun Value_sub :: "heap \<Rightarrow> nat \<Rightarrow> operand \<Rightarrow> heap \<times> nat" where
  "Value_sub h self (Node v) = (let (h1, n) = Value_neg h v in Value_add h1 self (Node n))"
| "Value_sub h self (Raw x) = Value_add h self (Raw (- x))"

text \<open>\<open>self * other**-1\<close>: \<open>**\<close> binds tighter and is evaluated first.\<close>

fun Value_truediv :: "heap \<Rightarrow> nat \<Rightarrow> operand \<Rightarrow> (heap \<times> nat) outcome" where
  "Value_truediv h self (Node v) =
     (case Value_pow h v (Number (PyInt (- 1))) of
        Raises e \<Rightarrow> Raises e
      | NonReal \<Rightarrow> NonReal
      | Returns (h1, p) \<Rightarrow> Returns (Value_mul h1 self (Node p)))"
| "Value_truediv h self (Raw x) =
     (case py_pow x (PyInt (- 1)) of
        Raises e \<Rightarrow> Raises e
      | NonReal \<Rightarrow> NonReal
      | Returns y \<Rightarrow> Returns (Value_mul h self (Raw y)))"

text \<open>
  \<open>tanh\<close>: \<open>math.exp(2*x)\<close> is evaluated first and may raise; the denominator is not zero.
  When \<open>math.exp\<close> gives \<open>inf\<close>, the quotient is \<open>nan\<close> and Python returns a node that holds
  it.
\<close>

definition Value_tanh :: "heap \<Rightarrow> nat \<Rightarrow> (heap \<times> nat) outcome" where
  "Value_tanh h self =
     (let x = data (h ! self)
      in case math_exp (2 * x) of
           Raises e \<Rightarrow> Raises e
         | NonReal \<Rightarrow> NonReal
         | Returns e2x \<Rightarrow>
             (let t = (e2x - 1) / (e2x + 1);
                  (h1, out) = Value_init h t [self] TanhTag
              in Returns (set_backward h1 out (TanhRule self t), out)))"

definition Value_exp :: "heap \<Rightarrow> nat \<Rightarrow> (heap \<times> nat) outcome" where
  "Value_exp h self =
     (let x = data (h ! self)
      in case math_exp x of
           Raises e \<Rightarrow> Raises e
         | NonReal \<Rightarrow> NonReal
         | Returns ex \<Rightarrow>
             (let (h1, out) = Value_init h ex [self] ExpTag
              in Returns (set_backward h1 out (ExpRule self), out)))"

subsection \<open>The backward rules\<close>

text \<open>\<open>v.gradient += x\<close>\<close>

definition add_gradient :: "heap \<Rightarrow> nat \<Rightarrow> real \<Rightarrow> heap" where
  "add_gradient h v x = h[v := (h ! v)\<lparr>gradient := gradient (h ! v) + x\<rparr>]"

text \<open>
  Calling the closure of node \<open>out\<close>. Each statement of a closure reads the store the
  statement before it left, as the attribute reads of the source do. In the rule of
  \<open>__pow__\<close>, \<open>self.data ** (other-1)\<close> may raise, and the product with an exponent that is
  \<open>inf\<close> or \<open>nan\<close> is no finite real; in the rule of \<open>tanh\<close>, \<open>t**2\<close> is Python's \<open>**\<close>.
\<close>

fun call_backward :: "heap \<Rightarrow> nat \<Rightarrow> rule \<Rightarrow> heap outcome" where
  "call_backward h out NoRule = Returns h"
| "call_backward h out (AddRule self other) =
     (let h1 = add_gradient h self (1 * gradient (h ! out));
          h2 = add_gradient h1 other (1 * gradient (h1 ! out))
      in Returns h2)"
| "call_backward h out (MulRule self other) =
     (let h1 = add_gradient h self (data (h ! other) * gradient (h ! out));
          h2 = add_gradient h1 other (data (h1 ! self) * gradient (h1 ! out))
      in Returns h2)"
| "call_backward h out (PowRule self other) =
     (case py_pow (data (h ! self)) (minus_one other) of
        Raises e \<Rightarrow> Raises e
      | NonReal \<Rightarrow> NonReal
      | Returns p \<Rightarrow>
          (case as_float other of
             Raises e \<Rightarrow> Raises e
           | NonReal \<Rightarrow> NonReal
           | Returns n \<Rightarrow> Returns (add_gradient h self (n * p * gradient (h ! out)))))"
| "call_backward h out (TanhRule self t) =
     (case py_pow t (PyInt 2) of
        Raises e \<Rightarrow> Raises e
      | NonReal \<Rightarrow> NonReal
      | Returns t2 \<Rightarrow> Returns (add_gradient h self ((1 - t2) * gradient (h ! out))))"
| "call_backward h out (ExpRule self) =
     Returns (add_gradient h self (data (h ! out) * gradient (h ! out)))"

subsection \<open>The backward pass\<close>

text \<open>
  \<open>previous\<close> is a Python set, whose iteration order the language leaves open. The
  traversal takes the order as a parameter \<open>it\<close>: \<open>it v S\<close> lists the set \<open>S\<close> of node \<open>v\<close>
  in the order the loop \<open>for child in value.previous\<close> meets it.

  \<open>build_topo\<close> is the nested function of \<open>backward\<close>; its two variables \<open>visited\<close> and
  \<open>topo\<close> are passed and returned. A reference always denotes an object in Python; the
  test \<open>value < length h\<close> says so for an index.
\<close>

function build_topo :: "(nat \<Rightarrow> nat set \<Rightarrow> nat list) \<Rightarrow> heap \<Rightarrow> nat \<Rightarrow> nat set \<times> nat list
    \<Rightarrow> nat set \<times> nat list"
  and build_topo_children :: "(nat \<Rightarrow> nat set \<Rightarrow> nat list) \<Rightarrow> heap \<Rightarrow> nat list
    \<Rightarrow> nat set \<times> nat list \<Rightarrow> nat set \<times> nat list"
where
  "build_topo it h value (visited, topo) =
     (if value \<notin> visited \<and> value < length h then
        (let (visited', topo') =
               build_topo_children it h (it value (previous (h ! value)))
                 (insert value visited, topo)
         in (visited', topo' @ [value]))
      else (visited, topo))"
| "build_topo_children it h [] s = s"
| "build_topo_children it h (child # rest) s =
     build_topo_children it h rest (build_topo it h child s)"
  by pat_completeness auto

lemma build_topo_dom_visited:
  "build_topo_build_topo_children_dom (Inl (it, h, v, s)) \<Longrightarrow>
     fst s \<subseteq> fst (build_topo it h v s)"
  "build_topo_build_topo_children_dom (Inr (it, h, cs, s)) \<Longrightarrow>
     fst s \<subseteq> fst (build_topo_children it h cs s)"
proof (induction it h v s and it h cs s rule: build_topo_build_topo_children.pinduct)
  case (1 it h v visited topo)
  then show ?case
    by (auto simp: build_topo.psimps split: prod.splits)
next
  case (2 it h s)
  then show ?case
    by (simp add: build_topo_children.psimps)
next
  case (3 it h child rest s)
  then show ?case
    by (auto simp: build_topo_children.psimps)
qed

termination build_topo
proof (relation "measures
    [\<lambda>x. case x of Inl (it, h, v, s) \<Rightarrow> card ({..<length h} - fst s)
               | Inr (it, h, cs, s) \<Rightarrow> card ({..<length h} - fst s),
     \<lambda>x. case x of Inl (it, h, v, s) \<Rightarrow> 0 | Inr (it, h, cs, s) \<Rightarrow> Suc (length cs)]",
    goal_cases)
  case 1
  show ?case by simp
next
  case (2 it h v visited topo)
  then have "card ({..<length h} - insert v visited) < card ({..<length h} - visited)"
    by (intro psubset_card_mono) auto
  then show ?case by simp
next
  case (3 it h child rest s)
  then show ?case by simp
next
  case (4 it h child rest s)
  have "card ({..<length h} - fst (build_topo it h child s)) \<le> card ({..<length h} - fst s)"
    using build_topo_dom_visited(1)[OF 4] by (intro card_mono) auto
  then show ?case by auto
qed

declare build_topo.simps [simp del]

text \<open>\<open>for node in reversed(topo): node._backward()\<close>; an exception ends the loop.\<close>

fun backward_loop :: "heap \<Rightarrow> nat list \<Rightarrow> heap outcome" where
  "backward_loop h [] = Returns h"
| "backward_loop h (node # rest) =
     (case call_backward h node (backward_rule (h ! node)) of
        Raises e \<Rightarrow> Raises e
      | NonReal \<Rightarrow> NonReal
      | Returns h1 \<Rightarrow> backward_loop h1 rest)"

definition Value_backward :: "(nat \<Rightarrow> nat set \<Rightarrow> nat list) \<Rightarrow> heap \<Rightarrow> nat \<Rightarrow> heap outcome" where
  "Value_backward it h self =
     (let (visited, topo) = build_topo it h self ({}, []);
          h1 = h[self := (h ! self)\<lparr>gradient := 1\<rparr>]
      in backward_loop h1 (rev topo))"

subsection \<open>Neuron, Layer, MLP\<close>

text \<open>
  The fields \<open>w\<close> and \<open>b\<close> of a \<open>Neuron\<close> are \<open>neuron_w\<close> and \<open>neuron_b\<close>. The weights come
  from \<open>random.uniform(-1, 1)\<close>; the sequence of numbers it returns is the parameter
  \<open>draws\<close>, and the number of calls made so far is passed along with the store.
\<close>

record neuron =
  neuron_w :: "nat list"
  neuron_b :: nat

record layer =
  neurons :: "neuron list"

record mlp =
  layers :: "layer list"

text \<open>\<open>[Value(random.uniform(-1, 1)) for _ in range(nin)]\<close>\<close>

fun new_values :: "(nat \<Rightarrow> real) \<Rightarrow> heap \<times> nat \<Rightarrow> nat \<Rightarrow> (heap \<times> nat) \<times> nat list" where
  "new_values draws s 0 = (s, [])"
| "new_values draws (h, k) (Suc n) =
     (let (h1, v) = Value_init h (draws k) [] LeafTag;
          (s2, vs) = new_values draws (h1, Suc k) n
      in (s2, v # vs))"

definition Neuron_init :: "(nat \<Rightarrow> real) \<Rightarrow> heap \<times> nat \<Rightarrow> nat \<Rightarrow> (heap \<times> nat) \<times> neuron" where
  "Neuron_init draws s nin =
     (let ((h1, k1), ws) = new_values draws s nin;
          (h2, bv) = Value_init h1 (draws k1) [] LeafTag
      in ((h2, Suc k1), \<lparr>neuron_w = ws, neuron_b = bv\<rparr>))"

text \<open>\<open>[Neuron(nin) for _ in range(nout)]\<close>\<close>

fun new_neurons :: "(nat \<Rightarrow> real) \<Rightarrow> heap \<times> nat \<Rightarrow> nat \<Rightarrow> nat \<Rightarrow> (heap \<times> nat) \<times> neuron list" where
  "new_neurons draws s nin 0 = (s, [])"
| "new_neurons draws s nin (Suc n) =
     (let (s1, x) = Neuron_init draws s nin;
          (s2, xs) = new_neurons draws s1 nin n
      in (s2, x # xs))"

definition Layer_init :: "(nat \<Rightarrow> real) \<Rightarrow> heap \<times> nat \<Rightarrow> nat \<Rightarrow> nat \<Rightarrow> (heap \<times> nat) \<times> layer" where
  "Layer_init draws s nin nout =
     (let (s1, ns) = new_neurons draws s nin nout in (s1, \<lparr>neurons = ns\<rparr>))"

text \<open>
  \<open>[Layer(sz[i], sz[i+1]) for i in range(len(nouts))]\<close> with \<open>sz = [nin] + nouts\<close>: the
  input size of a layer is the output size of the layer before it.
\<close>

fun new_layers :: "(nat \<Rightarrow> real) \<Rightarrow> heap \<times> nat \<Rightarrow> nat \<Rightarrow> nat list \<Rightarrow> (heap \<times> nat) \<times> layer list" where
  "new_layers draws s nin [] = (s, [])"
| "new_layers draws s nin (nout # nouts) =
     (let (s1, x) = Layer_init draws s nin nout;
          (s2, xs) = new_layers draws s1 nout nouts
      in (s2, x # xs))"

definition MLP_init :: "(nat \<Rightarrow> real) \<Rightarrow> heap \<times> nat \<Rightarrow> nat \<Rightarrow> nat list \<Rightarrow> (heap \<times> nat) \<times> mlp" where
  "MLP_init draws s nin nouts =
     (let (s1, ls) = new_layers draws s nin nouts in (s1, \<lparr>layers = ls\<rparr>))"




definition Neuron_parameters :: "neuron \<Rightarrow> nat list" where
  "Neuron_parameters n = neuron_w n @ [neuron_b n]"



definition Layer_parameters :: "layer \<Rightarrow> nat list" where
  "Layer_parameters l = concat (map Neuron_parameters (neurons l))"



definition MLP_parameters :: "mlp \<Rightarrow> nat list" where
  "MLP_parameters m = concat (map Layer_parameters (layers m))"

subsection \<open>Notions used in the statements\<close>

text \<open>
  \<open>allocated h h' out\<close>: the store \<open>h'\<close> is \<open>h\<close> with new nodes appended, every node of
  \<open>h\<close> as it was, and \<open>out\<close> is the node appended last.
\<close>

definition allocated :: "heap \<Rightarrow> heap \<Rightarrow> nat \<Rightarrow> bool" where
  "allocated h h' out = (take (length h) h' = h \<and> length h < length h' \<and> out = length h' - 1)"

text \<open>
  \<open>iteration_order it h\<close>: for every node of \<open>h\<close>, \<open>it\<close> lists the elements of its set
  \<open>previous\<close>, each once. \<open>sorted_order\<close> is one such order.
\<close>

definition iteration_order :: "(nat \<Rightarrow> nat set \<Rightarrow> nat list) \<Rightarrow> heap \<Rightarrow> bool" where
  "iteration_order it h =
     (\<forall>v<length h. set (it v (previous (h ! v))) = previous (h ! v) \<and>
        distinct (it v (previous (h ! v))))"

definition sorted_order :: "nat \<Rightarrow> nat set \<Rightarrow> nat list" where
  "sorted_order v S = sorted_list_of_set S"

text \<open>The number of weights and biases of \<open>MLP(nin, nouts)\<close>.\<close>

fun param_count :: "nat \<Rightarrow> nat list \<Rightarrow> nat" where
  "param_count nin [] = 0"
| "param_count nin (nout # nouts) = nout * (nin + 1) + param_count nout nouts"


fun operand_ok :: "heap \<Rightarrow> operand \<Rightarrow> bool" where
  "operand_ok h (Node v) = (v < length h)"
| "operand_ok h (Raw x) = True"






text \<open>
  The graph of a store. \<open>rule_operands\<close> are the nodes a rule adds to. \<open>graph_ok h\<close>: every
  predecessor of a node is older than the node (the nodes a constructor is given exist
  already), and a rule adds only to predecessors of its node; the forward operations
  keep it. \<open>reachable h start\<close> are the nodes reached from \<open>start\<close> along predecessor edges.
  \<open>topo_sorted h topo\<close>: no node occurs twice in \<open>topo\<close>, and every node occurs after all its
  predecessors.
\<close>

fun rule_operands :: "rule \<Rightarrow> nat set" where
  "rule_operands NoRule = {}"
| "rule_operands (AddRule a b) = {a, b}"
| "rule_operands (MulRule a b) = {a, b}"
| "rule_operands (PowRule a n) = {a}"
| "rule_operands (TanhRule a t) = {a}"
| "rule_operands (ExpRule a) = {a}"

definition graph_ok :: "heap \<Rightarrow> bool" where
  "graph_ok h =
     (\<forall>v<length h. (\<forall>p \<in> previous (h ! v). p < v) \<and>
        rule_operands (backward_rule (h ! v)) \<subseteq> previous (h ! v))"


definition topo_sorted :: "heap \<Rightarrow> nat list \<Rightarrow> bool" where
  "topo_sorted h topo =
     (distinct topo \<and> (\<forall>i<length topo. previous (h ! (topo ! i)) \<subseteq> set (take i topo)))"



subsection \<open>Stores used as examples\<close>

definition leaf :: "real \<Rightarrow> node" where
  "leaf d = \<lparr>data = d, previous = {}, operation = LeafTag, gradient = 0, backward_rule = NoRule\<rparr>"

text \<open>
  \<open>Layer(3, 2)\<close> and \<open>Layer(1, 1)\<close>, each made in the empty store with every weight and bias
  \<open>0.5\<close>.
\<close>

definition half :: "nat \<Rightarrow> real" where
  "half k = 1 / 2"






definition end_to_end :: "(heap \<times> nat \<times> nat \<times> nat \<times> nat \<times> nat) outcome" where
  "end_to_end =
     (let (h1, a) = Value_init [] 2 [] LeafTag;
          (h2, b) = Value_init h1 (- 3) [] LeafTag;
          (h3, c) = Value_init h2 10 [] LeafTag;
          (h4, ab) = Value_mul h3 a (Node b);
          (h5, d) = Value_add h4 ab (Node c)
      in case Value_tanh h5 d of
           Raises e \<Rightarrow> Raises e
         | NonReal \<Rightarrow> NonReal
         | Returns (h6, f) \<Rightarrow> Returns (h6, a, b, c, d, f))"

section \<open>Properties of the forward operations\<close>

lemma add_gradient_length [simp]: "length (add_gradient h v x) = length h"
  by (simp add: add_gradient_def)

lemma add_gradient_nth_other: "i \<noteq> v \<Longrightarrow> add_gradient h v x ! i = h ! i"
  by (simp add: add_gradient_def)

lemma add_gradient_data [simp]: "data (add_gradient h v x ! i) = data (h ! i)"
  by (cases "i = v"; cases "v < length h") (simp_all add: add_gradient_def list_update_beyond)

lemma add_gradient_rule [simp]: "backward_rule (add_gradient h v x ! i) = backward_rule (h ! i)"
  by (cases "i = v"; cases "v < length h") (simp_all add: add_gradient_def list_update_beyond)

lemma add_gradient_previous [simp]: "previous (add_gradient h v x ! i) = previous (h ! i)"
  by (cases "i = v"; cases "v < length h") (simp_all add: add_gradient_def list_update_beyond)

lemma add_gradient_gradient:
  "v < length h \<Longrightarrow>
     gradient (add_gradient h v x ! i) = (if i = v then gradient (h ! i) + x else gradient (h ! i))"
  by (simp add: add_gradient_def)

text \<open>
  Claim C2. For nodes \<open>a\<close> and \<open>b\<close> of a store \<open>h\<close>, \<open>a + b\<close> is a new node with the value
  \<open>a.data + b.data\<close>, and \<open>a * b\<close> a new node with the value \<open>a.data * b.data\<close>. Called in
  any later store \<open>s\<close>, in which the new node \<open>out\<close> has the gradient \<open>g\<close>, the rule of the
  sum adds \<open>g\<close> to \<open>a.gradient\<close> and then \<open>g\<close> to \<open>b.gradient\<close>, and the rule of the product
  adds \<open>b.data * g\<close> to \<open>a.gradient\<close> and then \<open>a.data * g\<close> to \<open>b.gradient\<close> (twice to the
  same node when \<open>a\<close> is \<open>b\<close>).
\<close>

theorem Value_add_mul_rules:
  assumes "a < length h" and "b < length h" and "length h < length s"
  shows "(case Value_add h a (Node b) of (h', out) \<Rightarrow>
            out = length h \<and> data (h' ! out) = data (h ! a) + data (h ! b) \<and>
            call_backward s out (backward_rule (h' ! out)) =
              Returns (add_gradient (add_gradient s a (gradient (s ! out))) b (gradient (s ! out)))) \<and>
         (case Value_mul h a (Node b) of (h', out) \<Rightarrow>
            out = length h \<and> data (h' ! out) = data (h ! a) * data (h ! b) \<and>
            call_backward s out (backward_rule (h' ! out)) =
              Returns (add_gradient (add_gradient s a (data (s ! b) * gradient (s ! out))) b
                     (data (s ! a) * gradient (s ! out))))"
  using assms
  by (simp add: Value_add_def Value_mul_def Value_init_def set_backward_def Let_def
      nth_append add_gradient_nth_other)

theorem Value_add_mul_rules_witness:
  "(0::nat) < length [leaf 2, leaf 5] \<and> (1::nat) < length [leaf 2, leaf 5] \<and>
   length [leaf 2, leaf 5] < length [leaf 2, leaf 5, (leaf 7)\<lparr>gradient := 3\<rparr>] \<and>
   (case Value_add [leaf 2, leaf 5] 0 (Node 1) of (h', out) \<Rightarrow>
      out = 2 \<and> data (h' ! out) = 7 \<and>
      call_backward [leaf 2, leaf 5, (leaf 7)\<lparr>gradient := 3\<rparr>] out (backward_rule (h' ! out)) =
        Returns [(leaf 2)\<lparr>gradient := 3\<rparr>, (leaf 5)\<lparr>gradient := 3\<rparr>, (leaf 7)\<lparr>gradient := 3\<rparr>]) \<and>
   (case Value_mul [leaf 2, leaf 5] 0 (Node 1) of (h', out) \<Rightarrow>
      out = 2 \<and> data (h' ! out) = 10 \<and>
      call_backward [leaf 2, leaf 5, (leaf 7)\<lparr>gradient := 3\<rparr>] out (backward_rule (h' ! out)) =
        Returns [(leaf 2)\<lparr>gradient := 15\<rparr>, (leaf 5)\<lparr>gradient := 6\<rparr>, (leaf 7)\<lparr>gradient := 3\<rparr>])"
  using Value_add_mul_rules [of 0 "[leaf 2, leaf 5]" 1 "[leaf 2, leaf 5, (leaf 7)\<lparr>gradient := 3\<rparr>]"]
  by (simp add: leaf_def add_gradient_def split: prod.splits)

lemma allocated_trans: "allocated h h1 v \<Longrightarrow> allocated h1 h2 out \<Longrightarrow> allocated h h2 out"
  unfolding allocated_def
  by (metis (no_types, lifting) less_imp_le_nat less_trans min.absorb2 take_take min.commute)

lemma Value_init_allocated: "Value_init h d cs tag = (h', v) \<Longrightarrow> allocated h h' v"
  by (auto simp: Value_init_def allocated_def)

lemma Value_add_allocated: "Value_add h a other = (h', out) \<Longrightarrow> allocated h h' out"
  by (cases other)
     (auto simp: Value_add_def Value_init_def set_backward_def allocated_def Let_def)

lemma Value_mul_allocated: "Value_mul h a other = (h', out) \<Longrightarrow> allocated h h' out"
  by (cases other)
     (auto simp: Value_mul_def Value_init_def set_backward_def allocated_def Let_def)

lemma Value_pow_allocated: "Value_pow h a n = Returns (h', out) \<Longrightarrow> allocated h h' out"
  by (auto simp: Value_pow_def Value_init_def set_backward_def allocated_def Let_def
      split: pyobj.splits outcome.splits)

lemma Value_neg_allocated: "Value_neg h a = (h', out) \<Longrightarrow> allocated h h' out"
  by (simp add: Value_neg_def Value_mul_allocated)

lemma Value_sub_allocated: "Value_sub h a other = (h', out) \<Longrightarrow> allocated h h' out"
  by (cases other)
     (auto split: prod.splits intro: allocated_trans Value_neg_allocated Value_add_allocated)

lemma Value_truediv_allocated:
  "Value_truediv h a other = Returns (h', out) \<Longrightarrow> allocated h h' out"
  by (cases other)
     (auto split: prod.splits outcome.splits
       intro: allocated_trans Value_pow_allocated Value_mul_allocated)

lemma Value_tanh_allocated: "Value_tanh h a = Returns (h', out) \<Longrightarrow> allocated h h' out"
  by (auto simp: Value_tanh_def Value_init_def set_backward_def allocated_def Let_def
      split: outcome.splits)

lemma Value_exp_allocated: "Value_exp h a = Returns (h', out) \<Longrightarrow> allocated h h' out"
  by (auto simp: Value_exp_def Value_init_def set_backward_def allocated_def Let_def
      split: outcome.splits)


lemma Value_init_new:
  "Value_init h d cs tag = (h', v) \<Longrightarrow> gradient (h' ! v) = 0 \<and> backward_rule (h' ! v) = NoRule"
  by (auto simp: Value_init_def)

lemma sorted_order_iteration:
  "list_all (\<lambda>n. finite (previous n)) h \<Longrightarrow> iteration_order sorted_order h"
  by (auto simp: iteration_order_def sorted_order_def list_all_length)

lemma leaf_backward:
  assumes "v < length s" "previous (s ! v) = {}" "backward_rule (s ! v) = NoRule"
    and "iteration_order it s"
  shows "Value_backward it s v = Returns (s[v := (s ! v)\<lparr>gradient := 1\<rparr>])"
proof -
  have "it v {} = []"
    using assms unfolding iteration_order_def by (metis set_empty)
  then have "build_topo it s v ({}, []) = ({v}, [v])"
    using assms by (simp add: build_topo.simps)
  then show ?thesis
    using assms by (simp add: Value_backward_def)
qed

text \<open>
  Claim C10. Every forward operation (\<open>+\<close>, \<open>*\<close>, \<open>**\<close>, unary \<open>-\<close>, binary \<open>-\<close>, \<open>/\<close>,
  \<open>tanh\<close>, \<open>exp\<close>) that returns only appends nodes to the store: every node that was there
  keeps its data, gradient, predecessors and rule, and the result is the node appended
  last. A node made by the constructor has gradient 0 and the rule that does nothing. So
  \<open>backward\<close> on a node with no predecessor and that rule sets the gradient of the node to
  1 and changes no other node.
\<close>

theorem forward_allocates_only:
  "(case Value_add h a other of (h', out) \<Rightarrow> allocated h h' out) \<and>
   (case Value_mul h a other of (h', out) \<Rightarrow> allocated h h' out) \<and>
   (case Value_pow h a n of Returns (h', out) \<Rightarrow> allocated h h' out | _ \<Rightarrow> True) \<and>
   (case Value_neg h a of (h', out) \<Rightarrow> allocated h h' out) \<and>
   (case Value_sub h a other of (h', out) \<Rightarrow> allocated h h' out) \<and>
   (case Value_truediv h a other of Returns (h', out) \<Rightarrow> allocated h h' out | _ \<Rightarrow> True) \<and>
   (case Value_tanh h a of Returns (h', out) \<Rightarrow> allocated h h' out | _ \<Rightarrow> True) \<and>
   (case Value_exp h a of Returns (h', out) \<Rightarrow> allocated h h' out | _ \<Rightarrow> True) \<and>
   (case Value_init h d cs tag of (h', v) \<Rightarrow>
      allocated h h' v \<and> gradient (h' ! v) = 0 \<and> backward_rule (h' ! v) = NoRule) \<and>
   (v < length s \<and> previous (s ! v) = {} \<and> backward_rule (s ! v) = NoRule \<and>
      iteration_order it s \<longrightarrow>
    Value_backward it s v = Returns (s[v := (s ! v)\<lparr>gradient := 1\<rparr>]))"
  by (auto split: prod.splits outcome.splits
      simp: Value_add_allocated Value_mul_allocated Value_pow_allocated Value_neg_allocated
        Value_sub_allocated Value_truediv_allocated Value_tanh_allocated Value_exp_allocated
        Value_init_allocated Value_init_new leaf_backward)

theorem forward_allocates_only_witness:
  "(0::nat) < length [leaf 2, leaf 5] \<and> previous ([leaf 2, leaf 5] ! 0) = {} \<and>
   backward_rule ([leaf 2, leaf 5] ! 0) = NoRule \<and> iteration_order sorted_order [leaf 2, leaf 5] \<and>
   Value_backward sorted_order [leaf 2, leaf 5] 0 = Returns [(leaf 2)\<lparr>gradient := 1\<rparr>, leaf 5] \<and>
   (case Value_sub [leaf 2, leaf 5] 0 (Node 1) of (h', out) \<Rightarrow> allocated [leaf 2, leaf 5] h' out)"
  using forward_allocates_only [of "[leaf 2, leaf 5]" 0 "Node 1" "Number (PyInt 2)" 1 "[]" LeafTag 0
      "[leaf 2, leaf 5]" sorted_order]
    sorted_order_iteration [of "[leaf 2, leaf 5]"]
  by (simp add: leaf_def)

subsection \<open>The range of the floats, \<open>math.exp\<close> and \<open>**\<close>\<close>

lemma float_max_ge: "2 ^ 1023 \<le> float_max"
  by (simp add: float_max_def)

lemma float_max_gt: "x \<le> 1 \<Longrightarrow> \<not> float_max < x"
  using float_max_ge by simp

lemma exp_le_float_max:
  assumes "x \<le> 600"
  shows "exp x \<le> float_max"
proof -
  have "exp x \<le> exp (of_nat 600 * 1)"
    using assms by simp
  also have "\<dots> = exp 1 ^ 600"
    by (rule exp_of_nat_mult)
  also have "\<dots> \<le> 3 ^ 600"
    using exp_le by (intro power_mono) simp_all
  also have "\<dots> \<le> (2::real) ^ 1023"
    by simp
  finally show ?thesis
    using float_max_ge by simp
qed

lemma math_exp_Returns: "x \<le> 600 \<Longrightarrow> math_exp x = Returns (exp x)"
  using exp_le_float_max [of x] float_max_ge by (simp add: math_exp_def)

lemma float_max_less_exp:
  assumes "1024 \<le> x"
  shows "float_max < exp x"
proof -
  have "float_max < (2::real) ^ 1024"
    by (simp add: float_max_def)
  also have "\<dots> \<le> exp 1 ^ 1024"
    using exp_ge_add_one_self [of 1] by (intro power_mono) simp_all
  also have "\<dots> = exp (of_nat 1024 * 1)"
    by (rule exp_of_nat_mult [symmetric])
  also have "\<dots> \<le> exp x"
    using assms by simp
  finally show ?thesis .
qed

lemma math_exp_Raises: "1024 \<le> x \<Longrightarrow> x \<le> float_max \<Longrightarrow> math_exp x = Raises OverflowError"
  using float_max_less_exp [of x] by (simp add: math_exp_def)


lemma pow_finite_int:
  "x \<noteq> 0 \<Longrightarrow>
     pow_finite x (of_int k) =
       (if float_max < \<bar>x powi k\<bar> then Raises OverflowError else Returns (x powi k))"
  by (auto simp: pow_finite_def Let_def float_max_gt)

lemma pow_finite_zero: "y < 0 \<Longrightarrow> pow_finite 0 y = Raises ZeroDivisionError"
  by (simp add: pow_finite_def)

lemma as_float_small:
  "\<bar>real_of_int k\<bar> \<le> 1000 \<Longrightarrow> as_float (PyInt k) = Returns (real_of_int k)"
proof -
  assume "\<bar>real_of_int k\<bar> \<le> 1000"
  moreover have "(1000::real) < 2 ^ 1024 - 2 ^ 970"
    by simp
  ultimately show ?thesis
    by simp
qed


lemma pow_finite_minus_one:
  "pow_finite x (- 1) =
     (if x = 0 then Raises ZeroDivisionError
      else if float_max < \<bar>1 / x\<bar> then Raises OverflowError else Returns (1 / x))"
  using pow_finite_int [of x "- 1"] pow_finite_zero [of "- 1"]
  by (simp add: power_int_minus divide_inverse)


lemma py_pow_minus_one:
  "py_pow x (PyInt (- 1)) =
     (if x = 0 then Raises ZeroDivisionError
      else if float_max < \<bar>1 / x\<bar> then Raises OverflowError else Returns (1 / x))"
  using as_float_small [of "- 1"] by (simp add: pow_finite_minus_one)

lemma py_pow_square: "\<bar>t\<bar> \<le> 1 \<Longrightarrow> py_pow t (PyInt 2) = Returns (t ^ 2)"
proof -
  assume t: "\<bar>t\<bar> \<le> 1"
  have "\<bar>t\<bar> ^ 2 \<le> 1 ^ 2"
    using t by (intro power_mono) simp_all
  then have "\<bar>t ^ 2\<bar> \<le> float_max"
    using float_max_ge by (simp add: power_abs)
  then show ?thesis
    using pow_finite_int [of t 2] as_float_small [of 2]
    by (cases "t = 0") (auto simp: pow_finite_def)
qed

lemma pow_finite_square: "\<bar>t\<bar> \<le> 1 \<Longrightarrow> pow_finite t 2 = Returns (t\<^sup>2)"
  using py_pow_square [of t] as_float_small [of 2] by simp

text \<open>
  Claim C6, as the code has it. For nodes \<open>a\<close> and \<open>b\<close> with \<open>b.data == 0\<close>, \<open>a / b\<close> raises
  \<open>ZeroDivisionError\<close>: \<open>b ** -1\<close> is evaluated first, and Python raises on \<open>0 ** -1\<close>. No
  node is returned, so there is no infinite or not-a-number value.
\<close>

theorem Value_truediv_zero:
  "data (h ! b) = 0 \<Longrightarrow> Value_truediv h a (Node b) = Raises ZeroDivisionError"
  by (simp add: Value_pow_def py_pow_minus_one del: py_pow.simps)

theorem Value_truediv_zero_witness:
  "data ([leaf 1, leaf 0] ! 1) = 0 \<and>
   Value_truediv [leaf 1, leaf 0] 0 (Node 1) = Raises ZeroDivisionError"
  using Value_truediv_zero [of "[leaf 1, leaf 0]" 1 0] by (simp add: leaf_def)

text \<open>
  The claim as the specification states it (no error is raised on a zero divisor) fails
  for the quotient of the leaves \<open>1.0\<close> and \<open>0.0\<close>.
\<close>

theorem Value_truediv_zero_raises:
  "Value_truediv [leaf 1, leaf 0] 0 (Node 1) = Raises ZeroDivisionError"
  by (simp add: leaf_def Value_pow_def py_pow_minus_one del: py_pow.simps)

text \<open>
  With a divisor that is not zero, and whose inverse is within the floats, the quotient
  is a node with the value \<open>a.data / b.data\<close>.
\<close>

lemma Value_truediv_nonzero:
  assumes "a < length h" "b < length h" "data (h ! b) \<noteq> 0" "\<bar>1 / data (h ! b)\<bar> \<le> float_max"
  shows "case Value_truediv h a (Node b) of
           Returns (h', out) \<Rightarrow> data (h' ! out) = data (h ! a) / data (h ! b)
         | _ \<Rightarrow> False"
  using assms
  by (simp add: Value_pow_def py_pow_minus_one Value_mul_def Value_init_def set_backward_def
      Let_def nth_append del: py_pow.simps)




section \<open>Neuron, Layer and MLP\<close>

lemma new_values_upt:
  "new_values draws (h, k) n = ((h', k'), vs) \<Longrightarrow>
     vs = [length h ..< length h + n] \<and> length h' = length h + n \<and> k' = k + n"
proof (induction n arbitrary: h k h' k' vs)
  case 0
  then show ?case by simp
next
  case (Suc n)
  define h1 where "h1 = fst (Value_init h (draws k) [] LeafTag)"
  have len: "length h1 = Suc (length h)" and v: "Value_init h (draws k) [] LeafTag = (h1, length h)"
    by (simp_all add: h1_def Value_init_def)
  obtain ws where ws: "new_values draws (h1, Suc k) n = ((h', k'), ws)" and vs: "vs = length h # ws"
    using Suc.prems v by (auto split: prod.splits)
  have ih: "ws = [Suc (length h) ..< Suc (length h) + n]" "length h' = Suc (length h) + n"
    "k' = Suc k + n"
    using Suc.IH [OF ws] unfolding len by blast+
  have "[length h ..< length h + Suc n] = length h # [Suc (length h) ..< length h + Suc n]"
    by (rule upt_conv_Cons) simp
  then show ?case
    using ih vs by simp
qed

lemma Neuron_init_upt:
  "Neuron_init draws (h, k) nin = ((h', k'), n) \<Longrightarrow>
     neuron_w n = [length h ..< length h + nin] \<and> neuron_b n = length h + nin \<and>
     length h' = length h + nin + 1"
  by (auto simp: Neuron_init_def Value_init_def Let_def split: prod.splits dest!: new_values_upt)

lemma Neuron_init_parameters:
  "Neuron_init draws (h, k) nin = ((h', k'), n) \<Longrightarrow>
     Neuron_parameters n = [length h ..< length h + (nin + 1)] \<and> length h' = length h + (nin + 1)"
  by (auto simp: Neuron_parameters_def dest!: Neuron_init_upt)

lemma upt_append_add: "[i ..< i + a] @ [i + a ..< i + a + b] = [i ..< i + a + (b::nat)]"
  by (metis le_add1 upt_add_eq_append)

lemma new_neurons_parameters:
  "new_neurons draws (h, k) nin nout = ((h', k'), ns) \<Longrightarrow>
     concat (map Neuron_parameters ns) = [length h ..< length h + nout * (nin + 1)] \<and>
     length h' = length h + nout * (nin + 1) \<and> length ns = nout \<and>
     (\<forall>n \<in> set ns. length (neuron_w n) = nin)"
proof (induction nout arbitrary: h k h' k' ns)
  case 0
  then show ?case by simp
next
  case (Suc nout)
  define K where "K = nin + 1"
  obtain h1 k1 x where x: "Neuron_init draws (h, k) nin = ((h1, k1), x)"
    by (metis prod.exhaust)
  obtain xs where xs: "new_neurons draws (h1, k1) nin nout = ((h', k'), xs)" and ns: "ns = x # xs"
    using Suc.prems x by (auto split: prod.splits)
  have px: "Neuron_parameters x = [length h ..< length h + K]" and h1: "length h1 = length h + K"
    using Neuron_init_parameters [OF x] unfolding K_def by blast+
  have wx: "length (neuron_w x) = nin"
    using Neuron_init_upt [OF x] by simp
  have ih: "concat (map Neuron_parameters xs) = [length h1 ..< length h1 + nout * K]"
    "length h' = length h1 + nout * K" "length xs = nout"
    "\<forall>n \<in> set xs. length (neuron_w n) = nin"
    using Suc.IH [OF xs] unfolding K_def by blast+
  have "concat (map Neuron_parameters ns) =
      [length h ..< length h + K] @ [length h + K ..< length h + K + nout * K]"
    by (simp only: ns list.map concat.simps px ih(1) h1)
  also have "\<dots> = [length h ..< length h + K + nout * K]"
    by (rule upt_append_add)
  finally have "concat (map Neuron_parameters ns) = [length h ..< length h + Suc nout * K]"
    by (simp only: mult_Suc add.assoc)
  moreover have "length h' = length h + Suc nout * K"
    by (simp only: ih(2) h1 mult_Suc add.assoc)
  ultimately show ?case
    using ih(3,4) wx ns unfolding K_def by simp
qed

lemma Layer_init_parameters:
  "Layer_init draws (h, k) nin nout = ((h', k'), l) \<Longrightarrow>
     Layer_parameters l = [length h ..< length h + nout * (nin + 1)] \<and>
     length h' = length h + nout * (nin + 1) \<and> length (neurons l) = nout \<and>
     (\<forall>n \<in> set (neurons l). length (neuron_w n) = nin)"
  by (auto simp: Layer_init_def Layer_parameters_def split: prod.splits dest!: new_neurons_parameters)

lemma new_layers_parameters:
  "new_layers draws (h, k) nin nouts = ((h', k'), ls) \<Longrightarrow>
     concat (map Layer_parameters ls) = [length h ..< length h + param_count nin nouts] \<and>
     length h' = length h + param_count nin nouts \<and>
     map (\<lambda>l. length (neurons l)) ls = nouts"
proof (induction nouts arbitrary: h k h' k' ls nin)
  case Nil
  then show ?case by simp
next
  case (Cons nout nouts)
  define K where "K = nout * (nin + 1)"
  define R where "R = param_count nout nouts"
  obtain h1 k1 x where x: "Layer_init draws (h, k) nin nout = ((h1, k1), x)"
    by (metis prod.exhaust)
  obtain xs where xs: "new_layers draws (h1, k1) nout nouts = ((h', k'), xs)" and ls: "ls = x # xs"
    using Cons.prems x by (auto split: prod.splits)
  have px: "Layer_parameters x = [length h ..< length h + K]" and h1: "length h1 = length h + K"
    and nx: "length (neurons x) = nout"
    using Layer_init_parameters [OF x] unfolding K_def by blast+
  have ih: "concat (map Layer_parameters xs) = [length h1 ..< length h1 + R]"
    "length h' = length h1 + R" "map (\<lambda>l. length (neurons l)) xs = nouts"
    using Cons.IH [OF xs] unfolding R_def by blast+
  have pc: "param_count nin (nout # nouts) = K + R"
    by (simp only: param_count.simps K_def R_def)
  have "concat (map Layer_parameters ls) =
      [length h ..< length h + K] @ [length h + K ..< length h + K + R]"
    by (simp only: ls list.map concat.simps px ih(1) h1)
  also have "\<dots> = [length h ..< length h + K + R]"
    by (rule upt_append_add)
  finally have "concat (map Layer_parameters ls) = [length h ..< length h + param_count nin (nout # nouts)]"
    by (simp only: pc add.assoc)
  moreover have "length h' = length h + param_count nin (nout # nouts)"
    by (simp only: ih(2) h1 pc add.assoc)
  ultimately show ?case
    using ih(3) nx ls by simp
qed

lemma MLP_init_parameters:
  "MLP_init draws (h, k) nin nouts = ((h', k'), m) \<Longrightarrow>
     MLP_parameters m = [length h ..< length h + param_count nin nouts] \<and>
     length h' = length h + param_count nin nouts \<and>
     map (\<lambda>l. length (neurons l)) (layers m) = nouts"
  by (auto simp: MLP_init_def MLP_parameters_def split: prod.splits dest!: new_layers_parameters)

text \<open>
  Claim C9. \<open>parameters()\<close> of a neuron is its weights in order and then its bias; of a
  layer, the parameters of its neurons, one neuron after the other; of an \<open>MLP\<close>, the
  parameters of its layers, one layer after the other. The lists depend on the object
  only, not on the store, so every call returns the same sequence. For the objects the
  constructors make in a store \<open>h\<close>: \<open>Neuron(nin)\<close> has \<open>nin\<close> weights and its parameters
  are the \<open>nin + 1\<close> nodes appended to \<open>h\<close>, in the order of their creation; \<open>Layer(nin,
  nout)\<close> has \<open>nout\<close> neurons of \<open>nin\<close> weights and its parameters are the
  \<open>nout * (nin + 1)\<close> new nodes in order; \<open>MLP(nin, nouts)\<close> has layers of the sizes \<open>nouts\<close>
  and its parameters are all the new nodes in order.
\<close>

theorem parameters_order:
  "Neuron_parameters n = neuron_w n @ [neuron_b n] \<and>
   Layer_parameters l = concat (map Neuron_parameters (neurons l)) \<and>
   MLP_parameters m = concat (map Layer_parameters (layers m)) \<and>
   (\<forall>i < length (neuron_w n). Neuron_parameters n ! i = neuron_w n ! i) \<and>
   Neuron_parameters n ! length (neuron_w n) = neuron_b n \<and>
   length (Neuron_parameters n) = length (neuron_w n) + 1 \<and>
   (\<forall>s' n'. Neuron_init draws (h, k) nin = (s', n') \<longrightarrow>
      length (neuron_w n') = nin \<and>
      Neuron_parameters n' = [length h ..< length h + (nin + 1)]) \<and>
   (\<forall>s' l'. Layer_init draws (h, k) nin nout = (s', l') \<longrightarrow>
      length (neurons l') = nout \<and> (\<forall>x \<in> set (neurons l'). length (neuron_w x) = nin) \<and>
      Layer_parameters l' = [length h ..< length h + nout * (nin + 1)]) \<and>
   (\<forall>s' m'. MLP_init draws (h, k) nin nouts = (s', m') \<longrightarrow>
      map (\<lambda>x. length (neurons x)) (layers m') = nouts \<and>
      MLP_parameters m' = [length h ..< length h + param_count nin nouts])"
proof -
  have 1: "\<forall>s' n'. Neuron_init draws (h, k) nin = (s', n') \<longrightarrow>
      length (neuron_w n') = nin \<and>
      Neuron_parameters n' = [length h ..< length h + (nin + 1)]"
  proof (intro allI impI)
    fix s' n'
    assume a: "Neuron_init draws (h, k) nin = (s', n')"
    obtain h' k' where s': "s' = (h', k')"
      by (cases s')
    show "length (neuron_w n') = nin \<and>
      Neuron_parameters n' = [length h ..< length h + (nin + 1)]"
      using Neuron_init_parameters [OF a [unfolded s']] Neuron_init_upt [OF a [unfolded s']]
      by simp
  qed
  have 2: "\<forall>s' l'. Layer_init draws (h, k) nin nout = (s', l') \<longrightarrow>
      length (neurons l') = nout \<and> (\<forall>x \<in> set (neurons l'). length (neuron_w x) = nin) \<and>
      Layer_parameters l' = [length h ..< length h + nout * (nin + 1)]"
  proof (intro allI impI)
    fix s' l'
    assume a: "Layer_init draws (h, k) nin nout = (s', l')"
    obtain h' k' where s': "s' = (h', k')"
      by (cases s')
    show "length (neurons l') = nout \<and> (\<forall>x \<in> set (neurons l'). length (neuron_w x) = nin) \<and>
      Layer_parameters l' = [length h ..< length h + nout * (nin + 1)]"
      using Layer_init_parameters [OF a [unfolded s']] by blast
  qed
  have 3: "\<forall>s' m'. MLP_init draws (h, k) nin nouts = (s', m') \<longrightarrow>
      map (\<lambda>x. length (neurons x)) (layers m') = nouts \<and>
      MLP_parameters m' = [length h ..< length h + param_count nin nouts]"
  proof (intro allI impI)
    fix s' m'
    assume a: "MLP_init draws (h, k) nin nouts = (s', m')"
    obtain h' k' where s': "s' = (h', k')"
      by (cases s')
    show "map (\<lambda>x. length (neurons x)) (layers m') = nouts \<and>
      MLP_parameters m' = [length h ..< length h + param_count nin nouts]"
      using MLP_init_parameters [OF a [unfolded s']] by blast
  qed
  have 4: "Neuron_parameters n = neuron_w n @ [neuron_b n]"
    by (simp add: Neuron_parameters_def)
  have 5: "Layer_parameters l = concat (map Neuron_parameters (neurons l))"
    by (simp add: Layer_parameters_def)
  have 6: "MLP_parameters m = concat (map Layer_parameters (layers m))"
    by (simp add: MLP_parameters_def)
  have 7: "\<forall>i < length (neuron_w n). Neuron_parameters n ! i = neuron_w n ! i"
    by (simp add: Neuron_parameters_def nth_append)
  have 8: "Neuron_parameters n ! length (neuron_w n) = neuron_b n"
    by (simp add: Neuron_parameters_def)
  have 9: "length (Neuron_parameters n) = length (neuron_w n) + 1"
    by (simp add: Neuron_parameters_def)
  show ?thesis
    by (intro conjI 1 2 3 4 5 6 7 8 9)
qed

theorem parameters_order_witness:
  "(0::nat) < length (neuron_w (snd (Neuron_init half ([], 0) 3))) \<and>
   Neuron_parameters (snd (Neuron_init half ([], 0) 3)) ! 0 =
     neuron_w (snd (Neuron_init half ([], 0) 3)) ! 0 \<and>
   Neuron_parameters (snd (Neuron_init half ([], 0) 3)) = [0 ..< 4] \<and>
   Layer_parameters (snd (Layer_init half ([], 0) 3 4)) = [0 ..< 16] \<and>
   MLP_parameters (snd (MLP_init half ([], 0) 3 [4, 4, 1])) = [0 ..< 41]"
proof -
  define n where "n = snd (Neuron_init half ([], 0) 3)"
  define l where "l = snd (Layer_init half ([], 0) 3 4)"
  define m where "m = snd (MLP_init half ([], 0) 3 [4, 4, 1])"
  have n: "Neuron_init half ([], 0) 3 = (fst (Neuron_init half ([], 0) 3), n)"
    and l: "Layer_init half ([], 0) 3 4 = (fst (Layer_init half ([], 0) 3 4), l)"
    and m: "MLP_init half ([], 0) 3 [4, 4, 1] = (fst (MLP_init half ([], 0) 3 [4, 4, 1]), m)"
    by (simp_all add: n_def l_def m_def)
  note t = parameters_order [of n l m half "[]" 0 3 4 "[4, 4, 1]"]
  have 1: "length (neuron_w n) = 3 \<and>
      Neuron_parameters n = [length ([]::heap) ..< length ([]::heap) + (3 + 1)]"
    using t n by blast
  have 2: "Layer_parameters l = [length ([]::heap) ..< length ([]::heap) + 4 * (3 + 1)]"
    using t l by blast
  have 3: "MLP_parameters m = [length ([]::heap) ..< length ([]::heap) + param_count 3 [4, 4, 1]]"
    using t m by blast
  have 4: "\<forall>i<length (neuron_w n). Neuron_parameters n ! i = neuron_w n ! i"
    using t by blast
  have "(0::nat) < length (neuron_w n)" "Neuron_parameters n ! 0 = neuron_w n ! 0"
    "Neuron_parameters n = [0 ..< 4]" "Layer_parameters l = [0 ..< 16]"
    "MLP_parameters m = [0 ..< 41]"
    using 1 2 3 4 by (simp_all del: upt_Suc)
  then show ?thesis
    unfolding n_def l_def m_def by blast
qed

subsection \<open>What a neuron and a layer compute\<close>

lemma tanh_exp: "(exp (2 * x) - 1) / (exp (2 * x) + 1) = tanh (x::real)"
proof -
  define E where "E = exp (2 * x)"
  have E: "0 < E"
    by (simp add: E_def)
  have "exp (- 2 * x) = inverse E"
    by (simp add: E_def exp_minus)
  then have "tanh x = (1 - inverse E) / (1 + inverse E)"
    by (simp only: tanh_real_altdef)
  also have "\<dots> = (E - 1) / (E + 1)"
    using E by (simp add: divide_simps)
  finally show ?thesis
    by (simp only: E_def)
qed




lemma math_exp_value: "math_exp x = Returns e \<Longrightarrow> e = exp x"
  by (auto simp: math_exp_def split: if_splits)































lemma math_exp_eval:
  "math_exp 2 = Returns (exp 2)" "math_exp 4 = Returns (exp 4)" "math_exp 7 = Returns (exp 7)"
  "math_exp 8 = Returns (exp 8)" "math_exp 3001 = Raises OverflowError"
  using math_exp_Returns [of 2] math_exp_Returns [of 4] math_exp_Returns [of 7]
    math_exp_Returns [of 8] math_exp_Raises [of 3001] float_max_ge
  by simp_all











section \<open>The backward pass on two expressions\<close>

lemma two_element_orders:
  assumes "set xs = {a, b}" and "distinct xs" and "a \<noteq> b"
  shows "xs = [a, b] \<or> xs = [b, a]"
proof -
  have "length xs = 2"
    using assms distinct_card [of xs] by simp
  then obtain y z where xs: "xs = [y, z]"
    by (cases xs; cases "tl xs"; cases "tl (tl xs)") auto
  then show ?thesis
    using assms by (auto simp: doubleton_eq_iff)
qed

lemma one_element_order: "set xs = {a} \<Longrightarrow> distinct xs \<Longrightarrow> xs = [a]"
  by (cases xs; cases "tl xs") (auto split: if_splits)




lemma end_to_end_eq:
  "end_to_end =
     Returns
      ([\<lparr>data = 2, previous = {}, operation = LeafTag, gradient = 0, backward_rule = NoRule\<rparr>,
        \<lparr>data = - 3, previous = {}, operation = LeafTag, gradient = 0, backward_rule = NoRule\<rparr>,
        \<lparr>data = 10, previous = {}, operation = LeafTag, gradient = 0, backward_rule = NoRule\<rparr>,
        \<lparr>data = - 6, previous = {0, 1}, operation = MulTag, gradient = 0,
           backward_rule = MulRule 0 1\<rparr>,
        \<lparr>data = 4, previous = {3, 2}, operation = AddTag, gradient = 0,
           backward_rule = AddRule 3 2\<rparr>,
        \<lparr>data = tanh 4, previous = {4}, operation = TanhTag, gradient = 0,
           backward_rule = TanhRule 4 (tanh 4)\<rparr>], 0, 1, 2, 4, 5)"
  using tanh_exp [of 4]
  by (simp add: end_to_end_def Value_init_def Value_mul_def Value_add_def Value_tanh_def
      set_backward_def Let_def eval_nat_numeral math_exp_eval)

lemma pow_finite_tanh: "pow_finite (tanh x) 2 = Returns ((tanh x)\<^sup>2)"
  using pow_finite_square [of "tanh x"] tanh_real_lt_1 [of x] tanh_real_gt_neg1 [of x]
  by simp

text \<open>
  Claim C4. For \<open>a = 2\<close>, \<open>b = -3\<close>, \<open>c = 10\<close>, \<open>d = a*b + c\<close> and \<open>f = tanh(d)\<close>: the forward
  pass returns, \<open>d.data\<close> is \<open>4\<close> and \<open>f.data\<close> is \<open>tanh 4\<close>; \<open>f.backward()\<close> returns, in whatever
  order the sets \<open>previous\<close> are iterated, and then \<open>a.gradient = b.data * (1 - f.data**2)\<close>,
  \<open>b.gradient = a.data * (1 - f.data**2)\<close> and \<open>c.gradient = 1 - f.data**2\<close>.
\<close>

theorem end_to_end_gradients:
  "case end_to_end of
     Returns (h, a, b, c, d, f) \<Rightarrow>
       data (h ! d) = 4 \<and> data (h ! f) = tanh 4 \<and>
       (iteration_order it h \<longrightarrow>
          (case Value_backward it h f of
             Returns h' \<Rightarrow>
               gradient (h' ! a) = data (h' ! b) * (1 - (data (h' ! f))\<^sup>2) \<and>
               gradient (h' ! b) = data (h' ! a) * (1 - (data (h' ! f))\<^sup>2) \<and>
               gradient (h' ! c) = 1 - (data (h' ! f))\<^sup>2 \<and>
               data (h' ! a) = 2 \<and> data (h' ! b) = - 3 \<and> data (h' ! f) = tanh 4
           | _ \<Rightarrow> False))
   | _ \<Rightarrow> False"
proof -
  obtain h where e: "end_to_end = Returns (h, 0, 1, 2, 4, 5)"
    and h: "h =
       [\<lparr>data = 2, previous = {}, operation = LeafTag, gradient = 0, backward_rule = NoRule\<rparr>,
        \<lparr>data = - 3, previous = {}, operation = LeafTag, gradient = 0, backward_rule = NoRule\<rparr>,
        \<lparr>data = 10, previous = {}, operation = LeafTag, gradient = 0, backward_rule = NoRule\<rparr>,
        \<lparr>data = - 6, previous = {0, 1}, operation = MulTag, gradient = 0,
           backward_rule = MulRule 0 1\<rparr>,
        \<lparr>data = 4, previous = {3, 2}, operation = AddTag, gradient = 0,
           backward_rule = AddRule 3 2\<rparr>,
        \<lparr>data = tanh 4, previous = {4}, operation = TanhTag, gradient = 0,
           backward_rule = TanhRule 4 (tanh 4)\<rparr>]"
    using end_to_end_eq by simp
  have bw: "case Value_backward it h 5 of
             Returns h' \<Rightarrow>
               gradient (h' ! 0) = data (h' ! 1) * (1 - (data (h' ! 5))\<^sup>2) \<and>
               gradient (h' ! 1) = data (h' ! 0) * (1 - (data (h' ! 5))\<^sup>2) \<and>
               gradient (h' ! 2) = 1 - (data (h' ! 5))\<^sup>2 \<and>
               data (h' ! 0) = 2 \<and> data (h' ! 1) = - 3 \<and> data (h' ! 5) = tanh 4
           | _ \<Rightarrow> False"
    if "iteration_order it h"
  proof -
    have leaves: "it 0 {} = []" "it 1 {} = []" "it 2 {} = []" and i5: "it 5 {4} = [4]"
      and i4: "set (it 4 {3, 2}) = {3, 2}" "distinct (it 4 {3, 2})"
      and i3: "set (it 3 {0, 1}) = {0, 1}" "distinct (it 3 {0, 1})"
      using that
      by (auto simp: h iteration_order_def less_Suc_eq eval_nat_numeral
          intro!: one_element_order)
    have o4: "it 4 {3, 2} = [3, 2] \<or> it 4 {3, 2} = [2, 3]"
      using two_element_orders [OF i4] by simp
    have o3: "it 3 {0, 1} = [0, 1] \<or> it 3 {0, 1} = [1, 0]"
      using two_element_orders [OF i3] by simp
    have "snd (build_topo it h 5 ({}, [])) \<in>
        {[0, 1, 3, 2, 4, 5], [1, 0, 3, 2, 4, 5], [2, 0, 1, 3, 4, 5], [2, 1, 0, 3, 4, 5]}"
      using o3 o4 leaves i5 by (auto simp: h build_topo.simps)
    then show ?thesis
      by (auto simp: h Value_backward_def add_gradient_def pow_finite_tanh split: prod.splits)
  qed
  have "data (h ! 4) = 4" "data (h ! 5) = tanh 4"
    by (simp_all add: h)
  then show ?thesis
    unfolding e outcome.case prod.case using bw by blast
qed

theorem end_to_end_gradients_witness:
  "(case end_to_end of
      Returns (h, a, b, c, d, f) \<Rightarrow>
        iteration_order sorted_order h \<and> data (h ! d) = 4 \<and> data (h ! f) = tanh 4 \<and>
        (case Value_backward sorted_order h f of
           Returns h' \<Rightarrow>
             gradient (h' ! a) = - 3 * (1 - (tanh 4)\<^sup>2) \<and>
             gradient (h' ! b) = 2 * (1 - (tanh 4)\<^sup>2) \<and>
             gradient (h' ! c) = 1 - (tanh 4)\<^sup>2
         | _ \<Rightarrow> False)
    | _ \<Rightarrow> False)"
proof -
  obtain h where e: "end_to_end = Returns (h, 0, 1, 2, 4, 5)"
    and l: "list_all (\<lambda>n. finite (previous n)) h"
    using end_to_end_eq by simp
  have "iteration_order sorted_order h"
    using l by (rule sorted_order_iteration)
  then show ?thesis
    using end_to_end_gradients [of sorted_order]
    by (auto simp: e split: outcome.splits)
qed

section \<open>The order of the backward pass\<close>

subsection \<open>The forward operations build an acyclic graph\<close>

lemma graph_ok_Nil: "graph_ok []"
  by (simp add: graph_ok_def)

lemma graph_ok_Value_init:
  assumes "graph_ok h" and "\<forall>c \<in> set cs. c < length h" and "Value_init h d cs tag = (h', v)"
  shows "graph_ok h'"
proof -
  have h': "h' = h @ [\<lparr>data = d, previous = set cs, operation = tag, gradient = 0,
             backward_rule = NoRule\<rparr>]"
    using assms(3) by (auto simp: Value_init_def)
  show ?thesis
    unfolding graph_ok_def
  proof (intro allI impI)
    fix u
    assume "u < length h'"
    then consider "u < length h" | "u = length h"
      unfolding h' by fastforce
    then show "(\<forall>p \<in> previous (h' ! u). p < u) \<and>
        rule_operands (backward_rule (h' ! u)) \<subseteq> previous (h' ! u)"
    proof cases
      case 1
      then have "h' ! u = h ! u"
        by (simp add: h' nth_append)
      then show ?thesis
        using assms(1) 1 unfolding graph_ok_def by simp
    next
      case 2
      then show ?thesis
        using assms(2) by (simp add: h')
    qed
  qed
qed

lemma graph_ok_set_backward:
  assumes "graph_ok h" and "rule_operands r \<subseteq> previous (h ! out)"
  shows "graph_ok (set_backward h out r)"
  unfolding graph_ok_def set_backward_def
proof (intro allI impI)
  fix v
  assume "v < length (h[out := (h ! out)\<lparr>backward_rule := r\<rparr>])"
  then have v: "v < length h"
    by simp
  show "(\<forall>p \<in> previous (h[out := (h ! out)\<lparr>backward_rule := r\<rparr>] ! v). p < v) \<and>
        rule_operands (backward_rule (h[out := (h ! out)\<lparr>backward_rule := r\<rparr>] ! v))
          \<subseteq> previous (h[out := (h ! out)\<lparr>backward_rule := r\<rparr>] ! v)"
    using assms v by (cases "v = out") (auto simp: graph_ok_def)
qed

lemma graph_ok_as_value:
  "graph_ok h \<Longrightarrow> operand_ok h x \<Longrightarrow> as_value h x = (h1, b) \<Longrightarrow>
     graph_ok h1 \<and> b < length h1 \<and> length h \<le> length h1"
  by (cases x) (auto simp: Value_init_def dest: graph_ok_Value_init [where cs = "[]" and tag = LeafTag])

lemma graph_ok_new_node:
  assumes "graph_ok h" and "\<forall>c \<in> set cs. c < length h" and "rule_operands r \<subseteq> set cs"
    and "Value_init h d cs tag = (h1, out)"
  shows "graph_ok (set_backward h1 out r)"
proof -
  have "graph_ok h1"
    using assms(1,2,4) by (rule graph_ok_Value_init)
  moreover have "previous (h1 ! out) = set cs"
    using assms(4) by (auto simp: Value_init_def)
  ultimately show ?thesis
    using assms(3) by (intro graph_ok_set_backward) simp_all
qed

lemma graph_ok_Value_add:
  assumes "graph_ok h" and "a < length h" and "operand_ok h x" and "Value_add h a x = (h', out)"
  shows "graph_ok h'"
proof -
  obtain h1 b where w: "as_value h x = (h1, b)"
    by (cases "as_value h x")
  obtain h2 o2 where i: "Value_init h1 (data (h1 ! a) + data (h1 ! b)) [a, b] AddTag = (h2, o2)"
    by (cases "Value_init h1 (data (h1 ! a) + data (h1 ! b)) [a, b] AddTag")
  have h': "h' = set_backward h2 o2 (AddRule a b)"
    using assms(4) w i by (auto simp: Value_add_def)
  note g = graph_ok_as_value [OF assms(1,3) w]
  show ?thesis
    unfolding h' using g assms(2) i by (intro graph_ok_new_node [OF _ _ _ i]) auto
qed

lemma graph_ok_Value_mul:
  assumes "graph_ok h" and "a < length h" and "operand_ok h x" and "Value_mul h a x = (h', out)"
  shows "graph_ok h'"
proof -
  obtain h1 b where w: "as_value h x = (h1, b)"
    by (cases "as_value h x")
  obtain h2 o2 where i: "Value_init h1 (data (h1 ! a) * data (h1 ! b)) [a, b] MulTag = (h2, o2)"
    by (cases "Value_init h1 (data (h1 ! a) * data (h1 ! b)) [a, b] MulTag")
  have h': "h' = set_backward h2 o2 (MulRule a b)"
    using assms(4) w i by (auto simp: Value_mul_def)
  note g = graph_ok_as_value [OF assms(1,3) w]
  show ?thesis
    unfolding h' using g assms(2) i by (intro graph_ok_new_node [OF _ _ _ i]) auto
qed

lemma graph_ok_Value_pow:
  assumes "graph_ok h" and "a < length h" and "Value_pow h a other = Returns (h', out)"
  shows "graph_ok h'"
proof -
  obtain n d where n: "other = Number n" and d: "py_pow (data (h ! a)) n = Returns d"
    using assms(3) by (auto simp: Value_pow_def split: pyobj.splits outcome.splits)
  obtain h1 o1 where i: "Value_init h d [a] (PowTag n) = (h1, o1)"
    by (cases "Value_init h d [a] (PowTag n)")
  have h': "h' = set_backward h1 o1 (PowRule a n)"
    using assms(3) d n i by (auto simp: Value_pow_def)
  show ?thesis
    unfolding h' using assms(1,2) by (intro graph_ok_new_node [OF _ _ _ i]) auto
qed

lemma graph_ok_Value_tanh:
  assumes "graph_ok h" and "a < length h" and "Value_tanh h a = Returns (h', out)"
  shows "graph_ok h'"
proof -
  define t where "t = (exp (2 * data (h ! a)) - 1) / (exp (2 * data (h ! a)) + 1)"
  obtain h1 o1 where i: "Value_init h t [a] TanhTag = (h1, o1)"
    by (cases "Value_init h t [a] TanhTag")
  have h': "h' = set_backward h1 o1 (TanhRule a t)"
    using assms(3) i
    by (auto simp: Value_tanh_def Let_def t_def split: outcome.splits dest!: math_exp_value)
  show ?thesis
    unfolding h' using assms(1,2) by (intro graph_ok_new_node [OF _ _ _ i]) auto
qed

lemma graph_ok_Value_exp:
  assumes "graph_ok h" and "a < length h" and "Value_exp h a = Returns (h', out)"
  shows "graph_ok h'"
proof -
  obtain h1 o1 where i: "Value_init h (exp (data (h ! a))) [a] ExpTag = (h1, o1)"
    by (cases "Value_init h (exp (data (h ! a))) [a] ExpTag")
  have h': "h' = set_backward h1 o1 (ExpRule a)"
    using assms(3) i
    by (auto simp: Value_exp_def Let_def split: outcome.splits dest!: math_exp_value)
  show ?thesis
    unfolding h' using assms(1,2) by (intro graph_ok_new_node [OF _ _ _ i]) auto
qed

subsection \<open>The traversal\<close>






lemma topo_sorted_Nil [simp]: "topo_sorted h []"
  by (simp add: topo_sorted_def)






subsection \<open>The loop over the reversed order\<close>






end
